theory Spec2Isabelle
  imports Main "HOL-Library.Word"
begin

section \<open>The registry monitor (monitor.go)\<close>

text \<open>
  A shallow embedding of the probe loop of \<^verbatim>\<open>monitor.go\<close>: the image reference
  builders, the two HTTP handlers, the probe steps and the loop of \<^verbatim>\<open>runMonitor\<close>.
  Package-level variables and the variables captured by the loop's closure are the fields
  of one record that every function takes and returns. The calls into the container
  engine, the clock and the metrics sink are recorded, in order, in the field
  \<open>trace\<close>; what the engine answers in one cycle is a record of responses.
\<close>

subsection \<open>Image references (lines 289 to 304)\<close>

text \<open>Go's \<^verbatim>\<open>strings.Join\<close>: the elements, with the separator between neighbours.\<close>

fun strings_Join :: "string list \<Rightarrow> string \<Rightarrow> string" where
  "strings_Join [] sep = []"
| "strings_Join [a] sep = a"
| "strings_Join (a # b # rest) sep = a @ sep @ strings_Join (b # rest) sep"

definition imagePath :: "string \<Rightarrow> string" where
  "imagePath repository = strings_Join [repository, ''latest''] '':''"

definition fullImageRef :: "string \<Rightarrow> string \<Rightarrow> string \<Rightarrow> string" where
  "fullImageRef registry repository baseImage =
     (if baseImage \<noteq> '''' then
        strings_Join [registry, repository, imagePath baseImage] ''/''
      else
        strings_Join [registry, imagePath repository] ''/'')"

subsection \<open>Configuration, engine responses and program state\<close>

text \<open>
  \<^verbatim>\<open>time.Duration\<close> is a 64-bit count of nanoseconds (an \<^verbatim>\<open>int64\<close>, read
  by \<open>sint\<close>). The program computes with it only in the constants
  \<^verbatim>\<open>30 * time.Second\<close> and \<^verbatim>\<open>120 * time.Second\<close>.
\<close>

type_synonym Duration = "64 word"

definition Second :: Duration where
  "Second = 1000000000"

text \<open>
  The command-line flags, as \<^verbatim>\<open>main\<close> leaves them before it calls
  \<^verbatim>\<open>runMonitor\<close>. The field \<open>testInterval\<close> holds what
  \<^verbatim>\<open>time.ParseDuration(*testInterval)\<close> returns: \<open>None\<close> for an error.
\<close>

record config =
  username :: string
  password :: string
  registryHost :: string
  repository :: string
  baseImage :: string
  publicBase :: bool
  baseLayer :: string
  testInterval :: "Duration option"
  awsAccessKey :: string
  awsSecretKey :: string
  cloudwatchNamespace :: string
  cloudwatchSuccessMetric :: string
  cloudwatchFailureMetric :: string
  cloudwatchPullTimeMetric :: string
  cloudwatchPushTimeMetric :: string

text \<open>One entry of an image history: only the two fields the code reads.\<close>

record history_entry =
  ID :: string
  Tags :: "string list"

text \<open>
  What the container engine and the clock answer during one pass of the loop. A field
  ending in \<open>Ok\<close> is true when the call returns a nil error (\<open>clientOk\<close> is the
  connection attempt of \<^verbatim>\<open>newPodmanClient\<close>); \<open>imageHistory\<close> and
  \<open>created\<close> are \<open>None\<close> when the call returns an error; \<open>pullTime\<close> and
  \<open>pushTime\<close> are the values of \<^verbatim>\<open>time.Since\<close>.
\<close>

record responses =
  clientOk :: bool
  pullTestOk :: bool
  pullTime :: Duration
  pullBaseOk :: bool
  imageHistory :: "history_entry list option"
  removeOk :: bool
  created :: "string option"
  commitOk :: bool
  startOk :: bool
  killOk :: bool
  pushOk :: bool
  pushTime :: Duration

text \<open>
  The value of a CloudWatch datum: the count 1, or \<^verbatim>\<open>duration.Seconds()\<close> of a
  duration (the conversion to floating point is not carried out).
\<close>

datatype metric_value = Count nat | Seconds Duration

text \<open>
  The calls that leave the program: sleeping, the container engine (with the image
  reference or container ID, and the credentials where the options carry them) and
  \<^verbatim>\<open>PutMetricData\<close> (namespace, metric name, unit, value).
\<close>

datatype action =
    Sleep Duration
  | Pull string "(string \<times> string) option"
  | History string
  | Remove "string list"
  | CreateWithSpec string
  | Commit string
  | Start string
  | Kill string string
  | Push string string "string \<times> string"
  | PutMetricData string string string metric_value

text \<open>
  A \<^verbatim>\<open>context.Context\<close> that carries a connection to the engine. The nil context is
  \<open>None\<close>.
\<close>

datatype Context = Connection

text \<open>
  The package-level variables \<open>base\<close>, \<open>healthy\<close>, \<open>status\<close>,
  \<open>podmanContext\<close> and the four Prometheus collectors (a counter's value; a summary's
  observations), the variables \<open>firstLoop\<close> and \<open>duration\<close> that the closure of
  \<^verbatim>\<open>runMonitor\<close> captures, and the calls made so far.
\<close>

record state =
  base :: string
  healthy :: bool
  status :: bool
  podmanContext :: "Context option"
  firstLoop :: bool
  duration :: Duration
  promSuccessMetric :: nat
  promFailureMetric :: nat
  promPushMetric :: "Duration list"
  promPullMetric :: "Duration list"
  trace :: "action list"

definition emit :: "action \<Rightarrow> state \<Rightarrow> state" where
  "emit a s = s\<lparr>trace := trace s @ [a]\<rparr>"

text \<open>
  How a function leaves: it returns a value, it calls \<^verbatim>\<open>os.Exit\<close>, or it panics.
  Nothing in the program recovers a panic, so a panic ends the process.
\<close>

datatype panic = IndexOutOfRange nat nat | MetricError | NilPointerDereference

datatype 'a result = Done 'a | OsExit nat | Panicked panic

subsection \<open>The HTTP handlers (lines 105 to 119)\<close>

text \<open>
  A \<^verbatim>\<open>http.ResponseWriter\<close>: the status line is fixed by the first call of
  \<^verbatim>\<open>WriteHeader\<close>, or as 200 by the first \<^verbatim>\<open>Write\<close> when no header was written
  before it.
\<close>

record ResponseWriter =
  wroteHeader :: bool
  statusCode :: nat
  body :: string

definition newResponseWriter :: ResponseWriter where
  "newResponseWriter = \<lparr>wroteHeader = False, statusCode = 0, body = []\<rparr>"

definition WriteHeader :: "nat \<Rightarrow> ResponseWriter \<Rightarrow> ResponseWriter" where
  "WriteHeader c w = (if wroteHeader w then w else w\<lparr>wroteHeader := True, statusCode := c\<rparr>)"

definition Write :: "string \<Rightarrow> ResponseWriter \<Rightarrow> ResponseWriter" where
  "Write p w = (let w' = (if wroteHeader w then w else WriteHeader 200 w)
                in w'\<lparr>body := body w' @ p\<rparr>)"

text \<open>The verb \<^verbatim>\<open>%t\<close> of \<^verbatim>\<open>fmt\<close>: the word true or false.\<close>

definition fmt_t :: "bool \<Rightarrow> string" where
  "fmt_t b = (if b then ''true'' else ''false'')"

text \<open>
  The handlers read one package-level flag and never look at the request, so the
  program state is their only argument besides the writer. They assign to no variable.
\<close>

definition healthHandler :: "state \<Rightarrow> ResponseWriter \<Rightarrow> ResponseWriter" where
  "healthHandler g w =
     (let w1 = (if \<not> healthy g then WriteHeader 503 w else w)
      in Write (fmt_t (healthy g)) w1)"

definition statusHandler :: "state \<Rightarrow> ResponseWriter \<Rightarrow> ResponseWriter" where
  "statusHandler g w =
     (let w1 = (if \<not> status g then WriteHeader 400 w else w)
      in Write (fmt_t (status g)) w1)"

text \<open>What the client receives: the status code and the body.\<close>

definition response :: "ResponseWriter \<Rightarrow> nat \<times> string" where
  "response w = (statusCode w, body w)"

subsection \<open>Helpers and metrics (lines 162 to 169, 491 to 543)\<close>

fun stringInSlice :: "string \<Rightarrow> string list \<Rightarrow> bool" where
  "stringInSlice v [] = False"
| "stringInSlice v (current # list) = (if current = v then True else stringInSlice v list)"

text \<open>
  The assignment \<^verbatim>\<open>xs[i] = v\<close> to a Go slice: it panics when the index is not below
  the length (a nil slice has length 0).
\<close>

definition slice_assign :: "'a list \<Rightarrow> nat \<Rightarrow> 'a \<Rightarrow> 'a list result" where
  "slice_assign xs i v =
     (if i < length xs then Done (xs[i := v]) else Panicked (IndexOutOfRange i (length xs)))"

text \<open>
  Both counter vectors are declared with the empty list of label names (lines 66 to 78).
  \<^verbatim>\<open>GetMetricWithLabelValues\<close> returns an error exactly when it is given a number of
  label values other than the number of label names; the result here is true for a nil
  error.
\<close>

definition counterLabelNames :: "string list" where
  "counterLabelNames = []"

definition GetMetricWithLabelValues :: "string list \<Rightarrow> string list \<Rightarrow> bool" where
  "GetMetricWithLabelValues labelNames lvs = (length lvs = length labelNames)"

text \<open>
  \<open>watchService\<close> is false for the nil pointer. An error of \<^verbatim>\<open>PutMetricData\<close> is
  only logged.
\<close>

definition putCloudWatchMetric ::
  "config \<Rightarrow> string \<Rightarrow> bool \<Rightarrow> string \<Rightarrow> metric_value \<Rightarrow> state \<Rightarrow> state" where
  "putCloudWatchMetric cfg metricName watchService unitName metricValue s =
     (if \<not> watchService then s
      else emit (PutMetricData (cloudwatchNamespace cfg) metricName unitName metricValue) s)"

definition reportSuccess :: "config \<Rightarrow> bool \<Rightarrow> state \<Rightarrow> unit result \<times> state" where
  "reportSuccess cfg watchService s =
     (let s1 = s\<lparr>status := True\<rparr>
      in if \<not> GetMetricWithLabelValues counterLabelNames [] then (Panicked MetricError, s1)
         else
           (let s2 = s1\<lparr>promSuccessMetric := promSuccessMetric s1 + 1\<rparr>
            in (Done (),
                putCloudWatchMetric cfg (cloudwatchSuccessMetric cfg) watchService
                  ''Count'' (Count 1) s2)))"

definition reportFailure :: "config \<Rightarrow> bool \<Rightarrow> state \<Rightarrow> unit result \<times> state" where
  "reportFailure cfg watchService s =
     (let s1 = s\<lparr>status := False\<rparr>
      in if \<not> GetMetricWithLabelValues counterLabelNames [] then (Panicked MetricError, s1)
         else
           (let s2 = s1\<lparr>promFailureMetric := promFailureMetric s1 + 1\<rparr>
            in (Done (),
                putCloudWatchMetric cfg (cloudwatchFailureMetric cfg) watchService
                  ''Count'' (Count 1) s2)))"

definition reportPushTime :: "config \<Rightarrow> bool \<Rightarrow> Duration \<Rightarrow> state \<Rightarrow> state" where
  "reportPushTime cfg watchService d s =
     putCloudWatchMetric cfg (cloudwatchPushTimeMetric cfg) watchService ''Seconds'' (Seconds d)
       (s\<lparr>promPushMetric := promPushMetric s @ [d]\<rparr>)"

definition reportPullTime :: "config \<Rightarrow> bool \<Rightarrow> Duration \<Rightarrow> state \<Rightarrow> state" where
  "reportPullTime cfg watchService d s =
     putCloudWatchMetric cfg (cloudwatchPullTimeMetric cfg) watchService ''Seconds'' (Seconds d)
       (s\<lparr>promPullMetric := promPullMetric s @ [d]\<rparr>)"

subsection \<open>The probe steps (lines 268 to 402)\<close>

text \<open>The pull options: no credentials for a public base, the stored ones otherwise.\<close>

definition pullOptions :: "config \<Rightarrow> (string \<times> string) option" where
  "pullOptions cfg = (if publicBase cfg then None else Some (username cfg, password cfg))"

text \<open>
  Lines 149 to 160: on an error \<^verbatim>\<open>newPodmanClient\<close> returns the nil context with the
  error, otherwise the connection with a nil error. The second component is true for a
  nil error.
\<close>

definition newPodmanClient :: "responses \<Rightarrow> Context option \<times> bool" where
  "newPodmanClient e = (if \<not> clientOk e then (None, False) else (Some Connection, True))"

text \<open>
  \<^verbatim>\<open>pullTestImage\<close> is the first step to use the context. \<^verbatim>\<open>images.Pull\<close> begins by
  reading its connection out of the context (\<^verbatim>\<open>ctx.Value\<close>): on the nil context that
  is a nil pointer dereference and the call panics before anything reaches the engine.
  The later steps are called with the same context and only after this step has
  returned, that is, with a connection.
\<close>

definition pullTestImage ::
  "config \<Rightarrow> Context option \<Rightarrow> responses \<Rightarrow> state \<Rightarrow> bool result \<times> state" where
  "pullTestImage cfg ctx e s =
     (let fullImagePath = imagePath (repository cfg)
      in case ctx of
           None \<Rightarrow> (Panicked NilPointerDereference, s)
         | Some connection \<Rightarrow>
             (let s1 = emit (Pull fullImagePath (pullOptions cfg)) s
              in if \<not> pullTestOk e then (Done False, s1) else (Done True, s1)))"

definition pullBaseImage :: "config \<Rightarrow> responses \<Rightarrow> state \<Rightarrow> bool \<times> state" where
  "pullBaseImage cfg e s =
     (let fullImagePath = fullImageRef (registryHost cfg) (repository cfg) (baseImage cfg);
          s1 = emit (Pull fullImagePath (pullOptions cfg)) s
      in if \<not> pullBaseOk e then (False, s1) else (True, s1))"

text \<open>
  The loop of \<^verbatim>\<open>deleteTopLayer\<close> over the history (lines 334 to 348). At the first
  entry tagged latest it declares the nil slice \<^verbatim>\<open>imagesToRemove\<close>, assigns to its
  element 0, calls \<^verbatim>\<open>images.Remove\<close> and breaks. After the loop the function returns
  the variable \<open>healthy\<close>.
\<close>

fun deleteTopLayer_loop :: "responses \<Rightarrow> history_entry list \<Rightarrow> state \<Rightarrow> bool result \<times> state" where
  "deleteTopLayer_loop e [] s = (Done (healthy s), s)"
| "deleteTopLayer_loop e (img # rest) s =
     (if stringInSlice ''latest'' (Tags img) then
        (case slice_assign [] 0 (ID img) of
           Panicked pn \<Rightarrow> (Panicked pn, s)
         | OsExit n \<Rightarrow> (OsExit n, s)
         | Done imagesToRemove \<Rightarrow>
             (let s1 = emit (Remove imagesToRemove) s
              in if \<not> removeOk e then (Done False, s1) else (Done (healthy s1), s1)))
      else deleteTopLayer_loop e rest s)"

definition deleteTopLayer :: "config \<Rightarrow> responses \<Rightarrow> state \<Rightarrow> bool result \<times> state" where
  "deleteTopLayer cfg e s =
     (let s1 = emit (History (baseLayer cfg)) s
      in case imageHistory e of
           None \<Rightarrow> (Done False, s1)
         | Some history \<Rightarrow> deleteTopLayer_loop e history s1)"

text \<open>
  \<^verbatim>\<open>createTagLayer\<close>: the container's name, built from the clock, is left out of the
  recorded call.
\<close>

definition createTagLayer :: "config \<Rightarrow> responses \<Rightarrow> state \<Rightarrow> bool result \<times> state" where
  "createTagLayer cfg e s =
     (let s1 = emit (CreateWithSpec
                  (fullImageRef (registryHost cfg) (repository cfg) (baseImage cfg))) s
      in case created e of
           None \<Rightarrow> (OsExit 1, s1)
         | Some createdID \<Rightarrow>
             (let s2 = emit (Commit createdID) s1
              in if \<not> commitOk e then (Done False, s2)
                 else
                   (let s3 = emit (Start createdID) s2
                    in if \<not> startOk e then (OsExit 1, s3)
                       else
                         (let s4 = emit (Kill createdID ''SIGKILL'') s3
                          in if \<not> killOk e then (Done False, s4) else (Done True, s4)))))"

definition pushTestImage :: "config \<Rightarrow> responses \<Rightarrow> state \<Rightarrow> bool \<times> state" where
  "pushTestImage cfg e s =
     (let source = fullImageRef (registryHost cfg) (repository cfg) '''';
          s1 = emit (Push source source (username cfg, password cfg)) s
      in if \<not> pushOk e then (False, s1) else (True, s1))"

subsection \<open>One pass of the loop (lines 563 to 626)\<close>

datatype step = PullTest | PullBase | DeleteLayer | TagLayer | PushTest

text \<open>
  How one pass of the \<^verbatim>\<open>for\<close> loop ends:
  \<^item> \<open>Failed PullTest\<close> and \<open>Failed PushTest\<close> are the \<^verbatim>\<open>continue\<close> statements of
    lines 580 and 615;
  \<^item> \<open>Succeeded\<close> is the end of the loop body, after line 625;
  \<^item> \<open>Halt PullBase\<close>, \<open>Halt DeleteLayer\<close> and \<open>Halt TagLayer\<close> are the
    \<^verbatim>\<open>return\<close> statements of lines 590, 601 and 607, which end \<^verbatim>\<open>mainLoop\<close>;
  \<^item> \<open>Exited\<close> is a call of \<^verbatim>\<open>os.Exit\<close> and \<open>Crashed\<close> a panic: both end the
    process.
\<close>

datatype ctl = Failed step | Succeeded | Halt step | Exited nat | Crashed panic

fun leave :: "ctl \<Rightarrow> unit result \<times> state \<Rightarrow> ctl \<times> state" where
  "leave c (Done u, s) = (c, s)"
| "leave c (OsExit n, s) = (Exited n, s)"
| "leave c (Panicked pn, s) = (Crashed pn, s)"

text \<open>Lines 610 to 625.\<close>

definition pushStage :: "config \<Rightarrow> Duration \<Rightarrow> bool \<Rightarrow> responses \<Rightarrow> state \<Rightarrow> ctl \<times> state" where
  "pushStage cfg userDuration cloudwatchService e s =
     (let (ok, s1) = pushTestImage cfg e s
      in if \<not> ok then
           leave (Failed PushTest)
             (reportFailure cfg cloudwatchService (s1\<lparr>duration := 30 * Second\<rparr>))
         else
           (let s2 = reportPushTime cfg cloudwatchService (pushTime e) s1;
                s3 = s2\<lparr>duration := userDuration\<rparr>
            in leave Succeeded (reportSuccess cfg cloudwatchService s3)))"

text \<open>Lines 604 to 608.\<close>

definition tagStage :: "config \<Rightarrow> Duration \<Rightarrow> bool \<Rightarrow> responses \<Rightarrow> state \<Rightarrow> ctl \<times> state" where
  "tagStage cfg userDuration cloudwatchService e s =
     (case createTagLayer cfg e s of
        (Done ok, s1) \<Rightarrow>
          if \<not> ok then (Halt TagLayer, s1\<lparr>healthy := False\<rparr>)
          else pushStage cfg userDuration cloudwatchService e s1
      | (OsExit n, s1) \<Rightarrow> (Exited n, s1)
      | (Panicked pn, s1) \<Rightarrow> (Crashed pn, s1))"

text \<open>Lines 598 to 602.\<close>

definition deleteStage :: "config \<Rightarrow> Duration \<Rightarrow> bool \<Rightarrow> responses \<Rightarrow> state \<Rightarrow> ctl \<times> state" where
  "deleteStage cfg userDuration cloudwatchService e s =
     (case deleteTopLayer cfg e s of
        (Done ok, s1) \<Rightarrow>
          if \<not> ok then (Halt DeleteLayer, s1\<lparr>healthy := False\<rparr>)
          else tagStage cfg userDuration cloudwatchService e s1
      | (OsExit n, s1) \<Rightarrow> (Exited n, s1)
      | (Panicked pn, s1) \<Rightarrow> (Crashed pn, s1))"

text \<open>Lines 586 to 596.\<close>

definition baseStage :: "config \<Rightarrow> Duration \<Rightarrow> bool \<Rightarrow> responses \<Rightarrow> state \<Rightarrow> ctl \<times> state" where
  "baseStage cfg userDuration cloudwatchService e s =
     (if baseImage cfg \<noteq> '''' then
        (let (ok, s1) = pullBaseImage cfg e s
         in if \<not> ok then (Halt PullBase, s1\<lparr>healthy := False\<rparr>)
            else deleteStage cfg userDuration cloudwatchService e (s1\<lparr>base := baseImage cfg\<rparr>))
      else deleteStage cfg userDuration cloudwatchService e (s\<lparr>base := baseLayer cfg\<rparr>))"

text \<open>Lines 564 to 567: every pass but the first begins by sleeping for \<open>duration\<close>.\<close>

definition sleepUnlessFirst :: "state \<Rightarrow> state" where
  "sleepUnlessFirst s = (if \<not> firstLoop s then emit (Sleep (duration s)) s else s)"

text \<open>
  The loop body. Line 573 assigns the result of \<^verbatim>\<open>newPodmanClient\<close> to the
  package-level \<open>podmanContext\<close> and to a variable \<^verbatim>\<open>err\<close> that is never read, so
  after a failed connection the pass goes on with the nil context.
\<close>

definition cycle :: "config \<Rightarrow> Duration \<Rightarrow> bool \<Rightarrow> responses \<Rightarrow> state \<Rightarrow> ctl \<times> state" where
  "cycle cfg userDuration cloudwatchService e s =
     (let s1 = sleepUnlessFirst s;
          s2 = s1\<lparr>firstLoop := False, status := True\<rparr>;
          (ctx, err_nil) = newPodmanClient e;
          s3 = s2\<lparr>podmanContext := ctx\<rparr>
      in case pullTestImage cfg (podmanContext s3) e s3 of
           (Done ok, s4) \<Rightarrow>
             if \<not> ok then
               leave (Failed PullTest)
                 (reportFailure cfg cloudwatchService (s4\<lparr>duration := 30 * Second\<rparr>))
             else
               baseStage cfg userDuration cloudwatchService e
                 (reportPullTime cfg cloudwatchService (pullTime e) s4)
         | (OsExit n, s4) \<Rightarrow> (Exited n, s4)
         | (Panicked pn, s4) \<Rightarrow> (Crashed pn, s4))"

subsection \<open>The process: the loop and the handlers (lines 476 to 488, 545 to 629)\<close>

text \<open>
  The goroutine that runs \<^verbatim>\<open>mainLoop\<close> is in the loop, holding the parsed interval
  \<open>userDuration\<close> and whether a CloudWatch service was configured, or it has returned
  from \<^verbatim>\<open>mainLoop\<close>, or the process has ended.
\<close>

datatype orchestrator =
    Looping Duration bool
  | Halted step
  | ProcessExited nat
  | ProcessCrashed panic

text \<open>
  The process: its variables, its loop, and the answers it has given to requests (path,
  status code, body).
\<close>

record process =
  globals :: state
  orch :: orchestrator
  served :: "(string \<times> nat \<times> string) list"

text \<open>
  The variables before \<^verbatim>\<open>runMonitor\<close>: Go's zero values, counters at 0, summaries
  without observations, no call made.
\<close>

definition zero_state :: state where
  "zero_state = \<lparr>base = [], healthy = False, status = False, podmanContext = None,
     firstLoop = False, duration = 0,
     promSuccessMetric = 0, promFailureMetric = 0, promPushMetric = [], promPullMetric = [],
     trace = []\<rparr>"

text \<open>Lines 546 to 548.\<close>

definition runMonitor_init :: "state \<Rightarrow> state" where
  "runMonitor_init s = s\<lparr>firstLoop := True, healthy := True, duration := 120 * Second\<rparr>"

text \<open>Lines 550 to 561: \<^verbatim>\<open>log.Fatalf\<close> exits with code 1.\<close>

definition mainLoop_start :: "config \<Rightarrow> orchestrator" where
  "mainLoop_start cfg =
     (case testInterval cfg of
        None \<Rightarrow> ProcessExited 1
      | Some userDuration \<Rightarrow>
          Looping userDuration
            (awsAccessKey cfg \<noteq> '''' \<and> awsSecretKey cfg \<noteq> '''' \<and> cloudwatchNamespace cfg \<noteq> ''''))"

definition runMonitor :: "config \<Rightarrow> process" where
  "runMonitor cfg = \<lparr>globals = runMonitor_init zero_state, orch = mainLoop_start cfg, served = []\<rparr>"

fun next_orch :: "orchestrator \<Rightarrow> ctl \<Rightarrow> orchestrator" where
  "next_orch l (Failed st) = l"
| "next_orch l Succeeded = l"
| "next_orch l (Halt st) = Halted st"
| "next_orch l (Exited n) = ProcessExited n"
| "next_orch l (Crashed pn) = ProcessCrashed pn"

fun alive :: "orchestrator \<Rightarrow> bool" where
  "alive (Looping userDuration cloudwatchService) = True"
| "alive (Halted st) = True"
| "alive (ProcessExited n) = False"
| "alive (ProcessCrashed pn) = False"

text \<open>
  What happens in the process, one event at a time: the loop makes one pass, with the
  engine's responses for it, or a request for \<^verbatim>\<open>/health\<close> or \<^verbatim>\<open>/status\<close> is
  answered. A pass happens only while the goroutine is in the loop; a request is
  answered only while the process lives. Requests between the statements of one pass
  are not modelled.
\<close>

datatype event = Cycle responses | GetHealth | GetStatus

fun handle :: "config \<Rightarrow> process \<Rightarrow> event \<Rightarrow> process" where
  "handle cfg p (Cycle e) =
     (case orch p of
        Looping userDuration cloudwatchService \<Rightarrow>
          (let (c, g) = cycle cfg userDuration cloudwatchService e (globals p)
           in p\<lparr>globals := g, orch := next_orch (orch p) c\<rparr>)
      | Halted st \<Rightarrow> p
      | ProcessExited n \<Rightarrow> p
      | ProcessCrashed pn \<Rightarrow> p)"
| "handle cfg p GetHealth =
     (if alive (orch p) then
        p\<lparr>served := served p @ [(''/health'', response (healthHandler (globals p) newResponseWriter))]\<rparr>
      else p)"
| "handle cfg p GetStatus =
     (if alive (orch p) then
        p\<lparr>served := served p @ [(''/status'', response (statusHandler (globals p) newResponseWriter))]\<rparr>
      else p)"

definition run :: "config \<Rightarrow> process \<Rightarrow> event list \<Rightarrow> process" where
  "run cfg p evs = foldl (handle cfg) p evs"

text \<open>
  The \<^verbatim>\<open>for\<close> loop of \<^verbatim>\<open>mainLoop\<close> (lines 563 to 626) on its own, given the engine's
  responses pass by pass: a \<^verbatim>\<open>continue\<close> and the end of the body go to the next pass,
  a \<^verbatim>\<open>return\<close>, an exit and a panic leave the loop. The loop has no exit condition:
  when the responses given are used up it is still looping.
\<close>

fun mainLoop :: "config \<Rightarrow> Duration \<Rightarrow> bool \<Rightarrow> responses list \<Rightarrow> state \<Rightarrow> orchestrator \<times> state" where
  "mainLoop cfg userDuration cloudwatchService [] s = (Looping userDuration cloudwatchService, s)"
| "mainLoop cfg userDuration cloudwatchService (e # es) s =
     (case cycle cfg userDuration cloudwatchService e s of
        (Failed st, s') \<Rightarrow> mainLoop cfg userDuration cloudwatchService es s'
      | (Succeeded, s') \<Rightarrow> mainLoop cfg userDuration cloudwatchService es s'
      | (Halt st, s') \<Rightarrow> (Halted st, s')
      | (Exited n, s') \<Rightarrow> (ProcessExited n, s')
      | (Crashed pn, s') \<Rightarrow> (ProcessCrashed pn, s'))"

subsection \<open>Sample inputs\<close>

text \<open>
  A configuration with a base layer ID, no base image, a CloudWatch service and a
  nominal interval of five minutes; the same with a base image instead of the base layer
  ID; and a pass in which every call succeeds and the history has one entry, tagged
  \<open>v1\<close> only.
\<close>

definition sample_config :: config where
  "sample_config = \<lparr>username = ''user'', password = ''secret'', registryHost = ''quay.example'',
     repository = ''app'', baseImage = '''', publicBase = False, baseLayer = ''0a1b2c'',
     testInterval = Some (300 * Second), awsAccessKey = ''AKIA'', awsSecretKey = ''key'',
     cloudwatchNamespace = ''Registry'', cloudwatchSuccessMetric = ''MonitorSuccess'',
     cloudwatchFailureMetric = ''MonitorFailure'', cloudwatchPullTimeMetric = ''MonitorPullTime'',
     cloudwatchPushTimeMetric = ''MonitorPushTime''\<rparr>"

definition base_image_config :: config where
  "base_image_config = sample_config\<lparr>baseImage := ''base'', baseLayer := ''''\<rparr>"

definition sample_responses :: responses where
  "sample_responses = \<lparr>clientOk = True, pullTestOk = True, pullTime = 2 * Second,
     pullBaseOk = True,
     imageHistory = Some [\<lparr>ID = ''0a1b2c'', Tags = [''v1'']\<rparr>], removeOk = True,
     created = Some ''c0ffee'', commitOk = True, startOk = True, killOk = True,
     pushOk = True, pushTime = 3 * Second\<rparr>"

text \<open>The same pass with a history whose entry is tagged latest.\<close>

definition tagged_responses :: responses where
  "tagged_responses = sample_responses\<lparr>imageHistory := Some [\<lparr>ID = ''0a1b2c'', Tags = [''latest'']\<rparr>]\<rparr>"

subsection \<open>Vocabulary of the proofs\<close>

text \<open>
  The variables that the steps between the test pull and the push leave alone: all but
  \<open>base\<close> and \<open>trace\<close>.
\<close>

definition carried :: "state \<Rightarrow> state \<Rightarrow> bool" where
  "carried s s0 \<longleftrightarrow>
     healthy s0 = healthy s \<and> status s0 = status s \<and> firstLoop s0 = firstLoop s \<and>
     duration s0 = duration s \<and> promSuccessMetric s0 = promSuccessMetric s \<and>
     promFailureMetric s0 = promFailureMetric s \<and> promPushMetric s0 = promPushMetric s \<and>
     promPullMetric s0 = promPullMetric s \<and> podmanContext s0 = podmanContext s"

text \<open>The endings of a pass after which the loop makes another pass.\<close>

fun continues :: "ctl \<Rightarrow> bool" where
  "continues (Failed st) = True"
| "continues Succeeded = True"
| "continues (Halt st) = False"
| "continues (Exited n) = False"
| "continues (Crashed pn) = False"

text \<open>The goroutine is in the loop.\<close>

fun looping :: "orchestrator \<Rightarrow> bool" where
  "looping (Looping userDuration cloudwatchService) = True"
| "looping (Halted st) = False"
| "looping (ProcessExited n) = False"
| "looping (ProcessCrashed pn) = False"

section \<open>Theorems\<close>

subsection \<open>Image references\<close>

lemma imagePath_append: "imagePath r = r @ '':latest''"
  by (simp add: imagePath_def)

text \<open>
  C6: for all strings r, h and b with b non-empty, imagePath r is r followed by
  ":latest", fullImageRef h r "" is h, "/", r, ":latest", and fullImageRef h r b is
  h, "/", r, "/", b, ":latest". Both are functions of their arguments alone and accept
  every string.
\<close>

theorem image_references:
  assumes "b \<noteq> ''''"
  shows "imagePath r = r @ '':latest''
       \<and> fullImageRef h r '''' = h @ ''/'' @ r @ '':latest''
       \<and> fullImageRef h r b = h @ ''/'' @ r @ ''/'' @ b @ '':latest''"
  using assms by (simp add: fullImageRef_def imagePath_append)

theorem image_references_witness:
  "''b'' \<noteq> '''' \<and> imagePath ''r'' = ''r:latest''
   \<and> fullImageRef ''h'' ''r'' '''' = ''h/r:latest''
   \<and> fullImageRef ''h'' ''r'' ''b'' = ''h/r/b:latest''"
  using image_references [of "''b''" "''r''" "''h''"] by simp

subsection \<open>The HTTP handlers\<close>

text \<open>
  C7: whatever the request, the health handler answers 200 with body "true" when
  healthy is true and 503 with body "false" when it is false; the status handler answers
  200 with body "true" when status is true and 400 with body "false" when it is false.
\<close>

theorem handlers_respond:
  "response (healthHandler g newResponseWriter)
     = (if healthy g then (200, ''true'') else (503, ''false''))
   \<and> response (statusHandler g newResponseWriter)
     = (if status g then (200, ''true'') else (400, ''false''))"
  by (simp add: response_def healthHandler_def statusHandler_def Write_def WriteHeader_def
      newResponseWriter_def fmt_t_def)

subsection \<open>Evaluation and the metrics\<close>

text \<open>The equations that evaluate a run on the sample inputs.\<close>

lemmas probe_defs = run_def runMonitor_def mainLoop_start_def runMonitor_init_def zero_state_def
  cycle_def sleepUnlessFirst_def pullTestImage_def pullBaseImage_def baseStage_def deleteStage_def
  deleteTopLayer_def slice_assign_def tagStage_def createTagLayer_def pushStage_def
  pushTestImage_def reportFailure_def reportSuccess_def reportPushTime_def reportPullTime_def
  putCloudWatchMetric_def GetMetricWithLabelValues_def counterLabelNames_def emit_def
  pullOptions_def fullImageRef_def imagePath_def Let_def response_def healthHandler_def
  statusHandler_def Write_def WriteHeader_def newResponseWriter_def fmt_t_def
  newPodmanClient_def sample_config_def base_image_config_def sample_responses_def
  tagged_responses_def Second_def

text \<open>
  The two counters have no labels and are looked up with no label values, so the lookup
  succeeds and neither report panics.
\<close>

lemma reportFailure_eq:
  "reportFailure cfg ws s =
     (Done (), putCloudWatchMetric cfg (cloudwatchFailureMetric cfg) ws ''Count'' (Count 1)
        (s\<lparr>status := False, promFailureMetric := promFailureMetric s + 1\<rparr>))"
  by (simp add: reportFailure_def GetMetricWithLabelValues_def counterLabelNames_def)

lemma reportSuccess_eq:
  "reportSuccess cfg ws s =
     (Done (), putCloudWatchMetric cfg (cloudwatchSuccessMetric cfg) ws ''Count'' (Count 1)
        (s\<lparr>status := True, promSuccessMetric := promSuccessMetric s + 1\<rparr>))"
  by (simp add: reportSuccess_def GetMetricWithLabelValues_def counterLabelNames_def)

subsection \<open>The delete step\<close>

text \<open>
  The loop over the history changes no variable and makes no call. It returns
  \<open>healthy\<close> when no entry is tagged latest, and panics at the first tagged entry:
  the slice it assigns to is empty.
\<close>

lemma deleteTopLayer_loop_tagged:
  "\<exists>x \<in> set h. stringInSlice ''latest'' (Tags x) \<Longrightarrow>
   deleteTopLayer_loop e h s = (Panicked (IndexOutOfRange 0 0), s)"
  by (induction h) (auto simp: slice_assign_def)

lemma deleteTopLayer_loop_untagged:
  "\<forall>x \<in> set h. \<not> stringInSlice ''latest'' (Tags x) \<Longrightarrow>
   deleteTopLayer_loop e h s = (Done (healthy s), s)"
  by (induction h) auto

lemma deleteTopLayer_loop_state: "snd (deleteTopLayer_loop e h s) = s"
  by (induction h) (auto simp: slice_assign_def)

lemma deleteTopLayer_loop_Done:
  "fst (deleteTopLayer_loop e h s) = Done b \<Longrightarrow> b = healthy s"
  by (induction h) (auto simp: slice_assign_def split: if_splits)

lemma deleteTopLayer_state:
  "snd (deleteTopLayer cfg e s) = emit (History (baseLayer cfg)) s"
  by (simp add: deleteTopLayer_def deleteTopLayer_loop_state Let_def split: option.split)

lemma deleteTopLayer_True:
  "fst (deleteTopLayer cfg e s) = Done True \<Longrightarrow> healthy s"
  by (auto simp: deleteTopLayer_def emit_def Let_def split: option.splits dest: deleteTopLayer_loop_Done)

lemma deleteTopLayer_tagged:
  assumes "imageHistory e = Some h" "\<exists>x \<in> set h. stringInSlice ''latest'' (Tags x)"
  shows "deleteTopLayer cfg e s = (Panicked (IndexOutOfRange 0 0), emit (History (baseLayer cfg)) s)"
  using assms by (simp add: deleteTopLayer_def Let_def deleteTopLayer_loop_tagged)

text \<open>
  C1 says: whenever the history call succeeds and some entry is tagged latest, the delete
  step removes exactly that image and completes without a runtime error, the assignment
  to the list of image IDs being in bounds. On a history whose only entry is tagged
  latest the step panics with index 0 out of range for length 0; the process ends in that
  pass, and the calls made are the test pull, its timing datum and the history call: no
  image is removed.
\<close>

theorem deleteTopLayer_latest_panics:
  "fst (deleteTopLayer sample_config tagged_responses (globals (runMonitor sample_config)))
     = Panicked (IndexOutOfRange 0 0)
   \<and> orch (run sample_config (runMonitor sample_config) [Cycle tagged_responses])
     = ProcessCrashed (IndexOutOfRange 0 0)
   \<and> trace (globals (run sample_config (runMonitor sample_config) [Cycle tagged_responses]))
     = [Pull ''app:latest'' (Some (''user'', ''secret'')),
        PutMetricData ''Registry'' ''MonitorPullTime'' ''Seconds'' (Seconds (2 * Second)),
        History ''0a1b2c'']"
  by (simp add: probe_defs)

subsection \<open>The tag step\<close>

text \<open>
  C9: in the tag step a failure of the start call ends the whole process with exit
  code 1, as a failure of the create call does, and no kill call follows; a failure of
  the commit or of the kill call makes the step return false, which ends the loop with a
  structural failure and leaves the process alive.
\<close>

theorem start_failure_exits:
  "fst (createTagLayer cfg (e\<lparr>created := Some cid, commitOk := True, startOk := False\<rparr>) s) = OsExit 1
   \<and> fst (createTagLayer cfg (e\<lparr>created := None\<rparr>) s) = OsExit 1
   \<and> fst (createTagLayer cfg (e\<lparr>created := Some cid, commitOk := False\<rparr>) s) = Done False
   \<and> fst (createTagLayer cfg
        (e\<lparr>created := Some cid, commitOk := True, startOk := True, killOk := False\<rparr>) s) = Done False
   \<and> fst (tagStage cfg ud ws (e\<lparr>created := Some cid, commitOk := True, startOk := False\<rparr>) s)
       = Exited 1
   \<and> fst (tagStage cfg ud ws (e\<lparr>created := None\<rparr>) s) = Exited 1
   \<and> fst (tagStage cfg ud ws (e\<lparr>created := Some cid, commitOk := False\<rparr>) s) = Halt TagLayer
   \<and> fst (tagStage cfg ud ws
        (e\<lparr>created := Some cid, commitOk := True, startOk := True, killOk := False\<rparr>) s)
       = Halt TagLayer
   \<and> next_orch l (Exited 1) = ProcessExited 1 \<and> \<not> alive (ProcessExited 1)
   \<and> next_orch l (Halt TagLayer) = Halted TagLayer \<and> alive (Halted TagLayer)
   \<and> trace (snd (createTagLayer cfg
        (e\<lparr>created := Some cid, commitOk := True, startOk := False\<rparr>) s))
       = trace s @ [CreateWithSpec (fullImageRef (registryHost cfg) (repository cfg) (baseImage cfg)),
                    Commit cid, Start cid]"
  by (simp add: tagStage_def createTagLayer_def emit_def Let_def)

subsection \<open>From the test pull to the push\<close>

lemma carried_refl: "carried s s"
  by (simp add: carried_def)

lemma carried_trans: "carried s s0 \<Longrightarrow> carried s0 s1 \<Longrightarrow> carried s s1"
  by (simp add: carried_def)

lemma carried_emit: "carried s (emit a s)"
  by (simp add: carried_def emit_def)

lemma carried_base: "carried s (s\<lparr>base := b\<rparr>)"
  by (simp add: carried_def)

lemma createTagLayer_carried: "carried s (snd (createTagLayer cfg e s))"
  by (simp add: createTagLayer_def carried_def emit_def Let_def split: option.split)

lemma deleteTopLayer_carried: "carried s (snd (deleteTopLayer cfg e s))"
  by (simp add: deleteTopLayer_state carried_emit)

lemma pushStage_Failed:
  assumes "pushStage cfg ud ws e s = (Failed st, s')"
  shows "st = PushTest \<and> \<not> pushOk e \<and> duration s' = 30 * Second \<and> \<not> status s'
       \<and> healthy s' = healthy s \<and> firstLoop s' = firstLoop s
       \<and> promFailureMetric s' = promFailureMetric s + 1
       \<and> promSuccessMetric s' = promSuccessMetric s
       \<and> promPushMetric s' = promPushMetric s \<and> promPullMetric s' = promPullMetric s
       \<and> (ws \<longrightarrow> last (trace s') = PutMetricData (cloudwatchNamespace cfg)
                  (cloudwatchFailureMetric cfg) ''Count'' (Count 1))"
  using assms
  by (auto simp: pushStage_def pushTestImage_def reportFailure_eq reportSuccess_eq
        reportPushTime_def putCloudWatchMetric_def emit_def Let_def split: if_splits)

lemma pushStage_Succeeded:
  assumes "pushStage cfg ud ws e s = (Succeeded, s')"
  shows "pushOk e \<and> duration s' = ud \<and> status s'
       \<and> healthy s' = healthy s \<and> firstLoop s' = firstLoop s
       \<and> promSuccessMetric s' = promSuccessMetric s + 1
       \<and> promFailureMetric s' = promFailureMetric s
       \<and> promPushMetric s' = promPushMetric s @ [pushTime e]
       \<and> promPullMetric s' = promPullMetric s
       \<and> (ws \<longrightarrow> (\<exists>t. trace s' = t @
             [PutMetricData (cloudwatchNamespace cfg) (cloudwatchPushTimeMetric cfg)
                ''Seconds'' (Seconds (pushTime e)),
              PutMetricData (cloudwatchNamespace cfg) (cloudwatchSuccessMetric cfg)
                ''Count'' (Count 1)]))"
  using assms
  by (auto simp: pushStage_def pushTestImage_def reportFailure_eq reportSuccess_eq
        reportPushTime_def putCloudWatchMetric_def emit_def Let_def split: if_splits)

text \<open>
  A pass that ends in a \<^verbatim>\<open>continue\<close> or at the end of the body after a successful
  test pull has gone through the push, and \<open>healthy\<close> was true when it began: the
  delete step returns that variable.
\<close>

lemma tagStage_continues:
  assumes "tagStage cfg ud ws e s = (c, s')" "continues c"
  shows "\<exists>s0. carried s s0 \<and> pushStage cfg ud ws e s0 = (c, s')"
proof -
  obtain r s1 where r: "createTagLayer cfg e s = (r, s1)" by force
  then have "carried s s1" using createTagLayer_carried [of s cfg e] by simp
  moreover from assms r have "pushStage cfg ud ws e s1 = (c, s')"
    by (auto simp: tagStage_def split: result.splits if_splits)
  ultimately show ?thesis by blast
qed

lemma deleteStage_continues:
  assumes "deleteStage cfg ud ws e s = (c, s')" "continues c"
  shows "healthy s \<and> (\<exists>s0. carried s s0 \<and> pushStage cfg ud ws e s0 = (c, s'))"
proof -
  obtain r s1 where r: "deleteTopLayer cfg e s = (r, s1)" by force
  then have s1: "carried s s1" using deleteTopLayer_carried [of s cfg e] by simp
  from assms r have d: "r = Done True" and tg: "tagStage cfg ud ws e s1 = (c, s')"
    by (auto simp: deleteStage_def split: result.splits if_splits)
  from d r have h: "healthy s" using deleteTopLayer_True [of cfg e s] by simp
  from tagStage_continues [OF tg assms(2)] s1 h show ?thesis
    by (blast intro: carried_trans)
qed

lemma baseStage_continues:
  assumes "baseStage cfg ud ws e s = (c, s')" "continues c"
  shows "healthy s \<and> (\<exists>s0. carried s s0 \<and> pushStage cfg ud ws e s0 = (c, s'))"
proof -
  obtain s1 where d: "deleteStage cfg ud ws e s1 = (c, s')" and s1: "carried s s1"
    using assms
    by (auto simp: baseStage_def pullBaseImage_def Let_def carried_def emit_def split: if_splits)
  from deleteStage_continues [OF d assms(2)] s1 show ?thesis
    by (auto simp: carried_def)
qed

text \<open>
  A pass whose connection attempt fails goes on with the nil context and panics in the
  test pull: no call reaches the engine and the process ends.
\<close>

lemma cycle_not_connected:
  assumes "\<not> clientOk e"
  shows "cycle cfg ud ws e s =
     (Crashed NilPointerDereference,
      (sleepUnlessFirst s)\<lparr>firstLoop := False, status := True, podmanContext := None\<rparr>)"
  using assms by (simp add: cycle_def newPodmanClient_def pullTestImage_def Let_def)

lemma cycle_continues_connected:
  assumes "cycle cfg ud ws e s = (c, s')" "continues c"
  shows "clientOk e"
proof (rule ccontr)
  assume "\<not> clientOk e"
  from cycle_not_connected [OF this, of cfg ud ws s] assms show False by simp
qed

lemma cycle_pull_failed:
  assumes "clientOk e" "\<not> pullTestOk e"
  shows "cycle cfg ud ws e s =
     (Failed PullTest,
      snd (reportFailure cfg ws
        ((emit (Pull (imagePath (repository cfg)) (pullOptions cfg))
            ((sleepUnlessFirst s)\<lparr>firstLoop := False, status := True,
               podmanContext := Some Connection\<rparr>))
           \<lparr>duration := 30 * Second\<rparr>)))"
  using assms
  by (simp add: cycle_def newPodmanClient_def pullTestImage_def reportFailure_eq Let_def)

lemma cycle_pulled:
  assumes "clientOk e" "pullTestOk e"
  shows "cycle cfg ud ws e s =
     baseStage cfg ud ws e
       (reportPullTime cfg ws (pullTime e)
          (emit (Pull (imagePath (repository cfg)) (pullOptions cfg))
             ((sleepUnlessFirst s)\<lparr>firstLoop := False, status := True,
                podmanContext := Some Connection\<rparr>)))"
  using assms by (simp add: cycle_def newPodmanClient_def pullTestImage_def Let_def)

lemma cycle_continues:
  assumes "cycle cfg ud ws e s = (c, s')" "continues c" "pullTestOk e"
  shows "healthy s \<and> (\<exists>s0. pushStage cfg ud ws e s0 = (c, s') \<and>
           healthy s0 \<and> status s0 \<and> \<not> firstLoop s0 \<and> duration s0 = duration s \<and>
           promSuccessMetric s0 = promSuccessMetric s \<and>
           promFailureMetric s0 = promFailureMetric s \<and>
           promPushMetric s0 = promPushMetric s \<and>
           promPullMetric s0 = promPullMetric s @ [pullTime e])"
proof -
  let ?s3 = "reportPullTime cfg ws (pullTime e)
     (emit (Pull (imagePath (repository cfg)) (pullOptions cfg))
        ((sleepUnlessFirst s)\<lparr>firstLoop := False, status := True,
           podmanContext := Some Connection\<rparr>))"
  from assms(1,2) have "clientOk e" by (rule cycle_continues_connected)
  from cycle_pulled [OF this assms(3), of cfg ud ws s] assms(1)
  have b: "baseStage cfg ud ws e ?s3 = (c, s')" by simp
  have f: "healthy ?s3 = healthy s \<and> status ?s3 \<and> \<not> firstLoop ?s3 \<and> duration ?s3 = duration s \<and>
           promSuccessMetric ?s3 = promSuccessMetric s \<and>
           promFailureMetric ?s3 = promFailureMetric s \<and>
           promPushMetric ?s3 = promPushMetric s \<and>
           promPullMetric ?s3 = promPullMetric s @ [pullTime e]"
    by (simp add: reportPullTime_def putCloudWatchMetric_def emit_def sleepUnlessFirst_def)
  from baseStage_continues [OF b assms(2)] obtain s0 where
    "healthy ?s3" "carried ?s3 s0" "pushStage cfg ud ws e s0 = (c, s')"
    by blast
  with f show ?thesis by (auto simp: carried_def)
qed

lemma push_failed_iff:
  assumes "cycle cfg ud ws e s = (c, s')"
  shows "c = Failed PushTest \<longleftrightarrow> continues c \<and> pullTestOk e \<and> \<not> pushOk e"
proof (cases "continues c")
  case False
  then show ?thesis by auto
next
  case c: True
  from assms c have k: "clientOk e" by (rule cycle_continues_connected)
  show ?thesis
  proof (cases "pullTestOk e")
    case False
    from cycle_pull_failed [OF k False, of cfg ud ws s] assms False show ?thesis by simp
  next
    case True
    from cycle_continues [OF assms c True] obtain s0 where
      p: "pushStage cfg ud ws e s0 = (c, s')" by blast
    from c p True show ?thesis
      by (cases c) (auto dest: pushStage_Failed pushStage_Succeeded)
  qed
qed

text \<open>
  From the causes: when the connection, the test pull, the base pull (if any), the
  history call and the four calls of the tag step succeed, no history entry is tagged
  latest and \<open>healthy\<close> is true, the pass reaches the push and does not leave the loop.
\<close>

lemma steps_reach_push:
  assumes "baseImage cfg = '''' \<or> pullBaseOk e" "healthy s"
      "imageHistory e = Some h" "\<forall>x \<in> set h. \<not> stringInSlice ''latest'' (Tags x)"
      "created e = Some cid" "commitOk e" "startOk e" "killOk e"
  shows "\<exists>s0. baseStage cfg ud ws e s = pushStage cfg ud ws e s0"
proof -
  have d: "\<And>s1. healthy s1 \<Longrightarrow> \<exists>s0. deleteStage cfg ud ws e s1 = pushStage cfg ud ws e s0"
    using assms(3-8)
    by (simp add: deleteStage_def deleteTopLayer_def deleteTopLayer_loop_untagged tagStage_def
          createTagLayer_def emit_def Let_def) blast
  show ?thesis
  proof (cases "baseImage cfg = ''''")
    case True
    with d [of "s\<lparr>base := baseLayer cfg\<rparr>"] assms(2) show ?thesis
      by (simp add: baseStage_def)
  next
    case False
    with assms(1) have "pullBaseOk e" by simp
    with False d [of "(emit (Pull (fullImageRef (registryHost cfg) (repository cfg) (baseImage cfg))
                         (pullOptions cfg)) s)\<lparr>base := baseImage cfg\<rparr>"] assms(2)
    show ?thesis
      by (simp add: baseStage_def pullBaseImage_def Let_def emit_def)
  qed
qed

lemma pushStage_continues: "continues (fst (pushStage cfg ud ws e s))"
  by (simp add: pushStage_def pushTestImage_def reportFailure_eq reportSuccess_eq Let_def)

lemma cycle_reaches_push:
  assumes "clientOk e" "pullTestOk e" "baseImage cfg = '''' \<or> pullBaseOk e" "healthy s"
      "imageHistory e = Some h" "\<forall>x \<in> set h. \<not> stringInSlice ''latest'' (Tags x)"
      "created e = Some cid" "commitOk e" "startOk e" "killOk e"
  shows "continues (fst (cycle cfg ud ws e s))"
proof -
  let ?s3 = "reportPullTime cfg ws (pullTime e)
     (emit (Pull (imagePath (repository cfg)) (pullOptions cfg))
        ((sleepUnlessFirst s)\<lparr>firstLoop := False, status := True,
           podmanContext := Some Connection\<rparr>))"
  have "healthy ?s3"
    using assms(4)
    by (simp add: reportPullTime_def putCloudWatchMetric_def emit_def sleepUnlessFirst_def)
  from steps_reach_push [OF assms(3) this assms(5-10), of ud ws]
  obtain s0 where "baseStage cfg ud ws e ?s3 = pushStage cfg ud ws e s0" by blast
  then show ?thesis
    by (simp add: cycle_pulled [OF assms(1,2)] pushStage_continues)
qed

subsection \<open>Transient failures\<close>

text \<open>
  C3: take a pass in which the engine was reached and either the test pull returns an
  error, or every step up to the push succeeds (no history entry being tagged latest)
  and the push returns an error. The pass ends at the \<^verbatim>\<open>continue\<close> of the failed step
  with the interval at 30 seconds, status false and healthy as it was; the failure counter
  has gone up by one (and the failure datum is the last call when CloudWatch is
  configured); neither the success counter nor the push summary has changed; after a
  failed test pull the only calls of the pass are the sleep (if any), the pull and the
  failure datum; the loop goes on, and its next pass begins by sleeping 30 seconds.
\<close>

theorem transient_failure:
  assumes "cycle cfg ud ws e s = (c, s')"
      and "clientOk e"
      and "\<not> pullTestOk e
         \<or> (pullTestOk e \<and> (baseImage cfg = '''' \<or> pullBaseOk e) \<and> healthy s
            \<and> imageHistory e = Some h \<and> (\<forall>x \<in> set h. \<not> stringInSlice ''latest'' (Tags x))
            \<and> created e = Some cid \<and> commitOk e \<and> startOk e \<and> killOk e \<and> \<not> pushOk e)"
  shows "(c = Failed PullTest \<or> c = Failed PushTest)
       \<and> duration s' = 30 * Second \<and> \<not> status s' \<and> healthy s' = healthy s
       \<and> promFailureMetric s' = promFailureMetric s + 1
       \<and> (ws \<longrightarrow> last (trace s') = PutMetricData (cloudwatchNamespace cfg)
                  (cloudwatchFailureMetric cfg) ''Count'' (Count 1))
       \<and> promSuccessMetric s' = promSuccessMetric s
       \<and> promPushMetric s' = promPushMetric s
       \<and> (\<not> pullTestOk e \<longrightarrow>
            c = Failed PullTest \<and>
            trace s' = trace (sleepUnlessFirst s)
              @ Pull (imagePath (repository cfg)) (pullOptions cfg)
              # (if ws then [PutMetricData (cloudwatchNamespace cfg)
                              (cloudwatchFailureMetric cfg) ''Count'' (Count 1)] else []))
       \<and> (pullTestOk e \<longrightarrow> c = Failed PushTest)
       \<and> sleepUnlessFirst s' = emit (Sleep (30 * Second)) s'
       \<and> next_orch (Looping ud ws) c = Looping ud ws"
proof (cases "pullTestOk e")
  case False
  from cycle_pull_failed [OF assms(2) False, of cfg ud ws s] assms(1)
  have c: "c = Failed PullTest"
    and s': "s' = snd (reportFailure cfg ws
        ((emit (Pull (imagePath (repository cfg)) (pullOptions cfg))
            ((sleepUnlessFirst s)\<lparr>firstLoop := False, status := True,
               podmanContext := Some Connection\<rparr>))
           \<lparr>duration := 30 * Second\<rparr>))"
    by simp_all
  show ?thesis
    unfolding s' c using False
    by (simp add: reportFailure_eq putCloudWatchMetric_def emit_def sleepUnlessFirst_def)
next
  case True
  with assms(3) have cause: "baseImage cfg = '''' \<or> pullBaseOk e" "healthy s"
      "imageHistory e = Some h" "\<forall>x \<in> set h. \<not> stringInSlice ''latest'' (Tags x)"
      "created e = Some cid" "commitOk e" "startOk e" "killOk e" and np: "\<not> pushOk e"
    by simp_all
  from cycle_reaches_push [OF assms(2) True cause, of ud ws] assms(1)
  have k: "continues c" by simp
  with push_failed_iff [OF assms(1)] True np have c: "c = Failed PushTest" by simp
  from cycle_continues [OF assms(1) k True] obtain s0 where
    p: "pushStage cfg ud ws e s0 = (Failed PushTest, s')" and
    f: "healthy s" "healthy s0" "\<not> firstLoop s0"
       "promSuccessMetric s0 = promSuccessMetric s" "promFailureMetric s0 = promFailureMetric s"
       "promPushMetric s0 = promPushMetric s"
    unfolding c by blast
  from pushStage_Failed [OF p] f True c show ?thesis
    by (simp add: sleepUnlessFirst_def)
qed

theorem transient_failure_witness:
  "clientOk (sample_responses\<lparr>pullTestOk := False\<rparr>)
   \<and> \<not> pullTestOk (sample_responses\<lparr>pullTestOk := False\<rparr>)
   \<and> fst (cycle sample_config (300 * Second) True
         (sample_responses\<lparr>pullTestOk := False\<rparr>) (globals (runMonitor sample_config)))
       = Failed PullTest
   \<and> duration (snd (cycle sample_config (300 * Second) True
         (sample_responses\<lparr>pullTestOk := False\<rparr>) (globals (runMonitor sample_config))))
       = 30 * Second
   \<and> \<not> status (snd (cycle sample_config (300 * Second) True
         (sample_responses\<lparr>pullTestOk := False\<rparr>) (globals (runMonitor sample_config))))
   \<and> trace (snd (cycle sample_config (300 * Second) True
         (sample_responses\<lparr>pullTestOk := False\<rparr>) (globals (runMonitor sample_config))))
       = [Pull ''app:latest'' (Some (''user'', ''secret'')),
          PutMetricData ''Registry'' ''MonitorFailure'' ''Count'' (Count 1)]
   \<and> clientOk (sample_responses\<lparr>pushOk := False\<rparr>)
   \<and> pullTestOk (sample_responses\<lparr>pushOk := False\<rparr>)
   \<and> imageHistory (sample_responses\<lparr>pushOk := False\<rparr>)
       = Some [\<lparr>ID = ''0a1b2c'', Tags = [''v1'']\<rparr>]
   \<and> created (sample_responses\<lparr>pushOk := False\<rparr>) = Some ''c0ffee''
   \<and> \<not> pushOk (sample_responses\<lparr>pushOk := False\<rparr>)
   \<and> fst (cycle sample_config (300 * Second) True
         (sample_responses\<lparr>pushOk := False\<rparr>) (globals (runMonitor sample_config)))
       = Failed PushTest
   \<and> duration (snd (cycle sample_config (300 * Second) True
         (sample_responses\<lparr>pushOk := False\<rparr>) (globals (runMonitor sample_config))))
       = 30 * Second
   \<and> \<not> status (snd (cycle sample_config (300 * Second) True
         (sample_responses\<lparr>pushOk := False\<rparr>) (globals (runMonitor sample_config))))"
proof -
  let ?g = "globals (runMonitor sample_config)"
  let ?ex = "sample_responses\<lparr>pullTestOk := False\<rparr>"
  let ?ey = "sample_responses\<lparr>pushOk := False\<rparr>"
  let ?X = "cycle sample_config (300 * Second) True ?ex ?g"
  let ?Y = "cycle sample_config (300 * Second) True ?ey ?g"
  have x1: "?X = (fst ?X, snd ?X)" by simp
  have x2: "clientOk ?ex" by (simp add: sample_responses_def)
  have x3: "\<not> pullTestOk ?ex
         \<or> (pullTestOk ?ex \<and> (baseImage sample_config = '''' \<or> pullBaseOk ?ex) \<and> healthy ?g
            \<and> imageHistory ?ex = Some [\<lparr>ID = ''0a1b2c'', Tags = [''v1'']\<rparr>]
            \<and> (\<forall>x \<in> set [\<lparr>ID = ''0a1b2c'', Tags = [''v1'']\<rparr>].
                  \<not> stringInSlice ''latest'' (Tags x))
            \<and> created ?ex = Some ''c0ffee'' \<and> commitOk ?ex \<and> startOk ?ex \<and> killOk ?ex
            \<and> \<not> pushOk ?ex)"
    by simp
  have y1: "?Y = (fst ?Y, snd ?Y)" by simp
  have y2: "clientOk ?ey" by (simp add: sample_responses_def)
  have y4: "pullTestOk ?ey" "imageHistory ?ey = Some [\<lparr>ID = ''0a1b2c'', Tags = [''v1'']\<rparr>]"
      "created ?ey = Some ''c0ffee''" "\<not> pushOk ?ey"
    by (simp_all add: sample_responses_def)
  have y3: "\<not> pullTestOk ?ey
         \<or> (pullTestOk ?ey \<and> (baseImage sample_config = '''' \<or> pullBaseOk ?ey) \<and> healthy ?g
            \<and> imageHistory ?ey = Some [\<lparr>ID = ''0a1b2c'', Tags = [''v1'']\<rparr>]
            \<and> (\<forall>x \<in> set [\<lparr>ID = ''0a1b2c'', Tags = [''v1'']\<rparr>].
                  \<not> stringInSlice ''latest'' (Tags x))
            \<and> created ?ey = Some ''c0ffee'' \<and> commitOk ?ey \<and> startOk ?ey \<and> killOk ?ey
            \<and> \<not> pushOk ?ey)"
    by (simp add: sample_responses_def sample_config_def runMonitor_def runMonitor_init_def)
  have g: "sleepUnlessFirst ?g = ?g"
    by (simp add: sleepUnlessFirst_def runMonitor_def runMonitor_init_def)
  have t: "trace ?g = []" by (simp add: runMonitor_def runMonitor_init_def zero_state_def)
  have c: "imagePath (repository sample_config) = ''app:latest''"
      "pullOptions sample_config = Some (''user'', ''secret'')"
      "cloudwatchNamespace sample_config = ''Registry''"
      "cloudwatchFailureMetric sample_config = ''MonitorFailure''"
    by (simp_all add: sample_config_def imagePath_append pullOptions_def)
  from transient_failure [OF x1 x2 x3] transient_failure [OF y1 y2 y3] x2 y2 y4 show ?thesis
    by (simp add: g t c)
qed

subsection \<open>Structural failures\<close>

lemma pushStage_not_Halt: "pushStage cfg ud ws e s \<noteq> (Halt st, s')"
  by (simp add: pushStage_def pushTestImage_def reportFailure_eq reportSuccess_eq Let_def)

lemma tagStage_Halt:
  assumes "tagStage cfg ud ws e s = (Halt st, s')"
  shows "st = TagLayer \<and> \<not> healthy s' \<and> status s' = status s"
proof -
  obtain r s1 where r: "createTagLayer cfg e s = (r, s1)" by force
  then have "carried s s1" using createTagLayer_carried [of s cfg e] by simp
  with assms r show ?thesis
    by (auto simp: tagStage_def carried_def pushStage_not_Halt split: result.splits if_splits)
qed

lemma deleteStage_Halt:
  assumes "deleteStage cfg ud ws e s = (Halt st, s')"
  shows "(st = DeleteLayer \<or> st = TagLayer) \<and> \<not> healthy s' \<and> status s' = status s"
proof -
  obtain r s1 where r: "deleteTopLayer cfg e s = (r, s1)" by force
  then have "carried s s1" using deleteTopLayer_carried [of s cfg e] by simp
  with assms r show ?thesis
    by (auto simp: deleteStage_def carried_def split: result.splits if_splits dest: tagStage_Halt)
qed

lemma baseStage_Halt:
  assumes "baseStage cfg ud ws e s = (Halt st, s')"
  shows "(st = PullBase \<or> st = DeleteLayer \<or> st = TagLayer) \<and> \<not> healthy s' \<and> status s' = status s"
  using assms
  by (auto simp: baseStage_def pullBaseImage_def Let_def emit_def split: if_splits
        dest: deleteStage_Halt)

lemma cycle_Halt:
  assumes "cycle cfg ud ws e s = (Halt st, s')"
  shows "(st = PullBase \<or> st = DeleteLayer \<or> st = TagLayer) \<and> \<not> healthy s' \<and> status s'"
proof (cases "clientOk e")
  case False
  from cycle_not_connected [OF False, of cfg ud ws s] assms show ?thesis by simp
next
  case True
  show ?thesis
  proof (cases "pullTestOk e")
    case False
    from cycle_pull_failed [OF True False, of cfg ud ws s] assms show ?thesis by simp
  next
    case p: True
    let ?s3 = "reportPullTime cfg ws (pullTime e)
       (emit (Pull (imagePath (repository cfg)) (pullOptions cfg))
          ((sleepUnlessFirst s)\<lparr>firstLoop := False, status := True,
             podmanContext := Some Connection\<rparr>))"
    from cycle_pulled [OF True p, of cfg ud ws s] assms
    have b: "baseStage cfg ud ws e ?s3 = (Halt st, s')" by simp
    have "status ?s3"
      by (simp add: reportPullTime_def putCloudWatchMetric_def emit_def)
    with baseStage_Halt [OF b] show ?thesis by simp
  qed
qed

lemma run_Cons: "run cfg p (ev # evs) = run cfg (handle cfg p ev) evs"
  by (simp add: run_def)

lemma run_append: "run cfg p (evs @ evs') = run cfg (run cfg p evs) evs'"
  by (simp add: run_def)

text \<open>Once the loop has returned, a pass changes nothing and a request is answered.\<close>

lemma handle_Halted:
  assumes "orch p = Halted st"
  shows "globals (handle cfg p ev) = globals p \<and> orch (handle cfg p ev) = Halted st
       \<and> served (handle cfg p ev) = served p @
           (if ev = GetHealth then [(''/health'', response (healthHandler (globals p) newResponseWriter))]
            else if ev = GetStatus then [(''/status'', response (statusHandler (globals p) newResponseWriter))]
            else [])"
  using assms by (cases ev) simp_all

lemma run_Halted:
  assumes "orch p = Halted st"
  shows "globals (run cfg p evs) = globals p \<and> orch (run cfg p evs) = Halted st
       \<and> served (run cfg p evs) = served p @
           map (\<lambda>ev. if ev = GetHealth
                     then (''/health'', response (healthHandler (globals p) newResponseWriter))
                     else (''/status'', response (statusHandler (globals p) newResponseWriter)))
             (filter (\<lambda>ev. ev = GetHealth \<or> ev = GetStatus) evs)"
  using assms
proof (induction evs arbitrary: p)
  case Nil
  then show ?case by (simp add: run_def)
next
  case (Cons ev evs)
  from handle_Halted [OF Cons.prems, of cfg ev]
  have g: "globals (handle cfg p ev) = globals p" and o: "orch (handle cfg p ev) = Halted st"
    and sv: "served (handle cfg p ev) = served p @
           (if ev = GetHealth then [(''/health'', response (healthHandler (globals p) newResponseWriter))]
            else if ev = GetStatus then [(''/status'', response (statusHandler (globals p) newResponseWriter))]
            else [])"
    by simp_all
  from Cons.IH [OF o] show ?case
    by (simp add: run_Cons g sv)
qed

lemma handle_Cycle_Halt:
  assumes "orch p = Looping ud ws" "cycle cfg ud ws e (globals p) = (Halt st, s')"
  shows "globals (handle cfg p (Cycle e)) = s' \<and> orch (handle cfg p (Cycle e)) = Halted st
       \<and> served (handle cfg p (Cycle e)) = served p"
  using assms by simp

text \<open>
  The process model agrees with the loop: from a looping process, the passes for a list
  of responses leave the loop and the variables as \<open>mainLoop\<close> does.
\<close>

lemma run_Cycles_stopped:
  assumes "orch p = Halted st \<or> orch p = ProcessExited n \<or> orch p = ProcessCrashed pn"
  shows "run cfg p (map Cycle es) = p"
proof (induction es)
  case Nil
  then show ?case by (simp add: run_def)
next
  case (Cons e es)
  from assms have "handle cfg p (Cycle e) = p" by auto
  with Cons show ?case by (simp add: run_Cons del: handle.simps)
qed

lemma run_Cycles_mainLoop:
  assumes "orch p = Looping ud ws"
  shows "(orch (run cfg p (map Cycle es)), globals (run cfg p (map Cycle es)))
           = mainLoop cfg ud ws es (globals p)"
  using assms
proof (induction es arbitrary: p)
  case Nil
  then show ?case by (simp add: run_def)
next
  case (Cons e es)
  obtain c g where cg: "cycle cfg ud ws e (globals p) = (c, g)" by force
  let ?q = "handle cfg p (Cycle e)"
  from Cons.prems cg have q: "globals ?q = g" "orch ?q = next_orch (Looping ud ws) c"
    by simp_all
  show ?case
  proof (cases "continues c")
    case True
    then have "orch ?q = Looping ud ws" using q by (cases c) simp_all
    from Cons.IH [OF this] True cg q show ?thesis
      by (cases c) (simp_all add: run_Cons del: handle.simps)
  next
    case False
    then have "run cfg ?q (map Cycle es) = ?q"
      using q by (cases c) (simp_all add: run_Cycles_stopped del: handle.simps)
    with False cg q show ?thesis
      by (cases c) (simp_all add: run_Cons del: handle.simps)
  qed
qed

text \<open>
  A pass that ends in a return from the loop leaves healthy false, and afterwards the
  loop stays halted and every variable keeps its value.
\<close>

lemma halt_is_final:
  assumes "orch p = Looping ud ws" and "cycle cfg ud ws e (globals p) = (Halt st, s')"
  shows "(st = PullBase \<or> st = DeleteLayer \<or> st = TagLayer)
       \<and> \<not> healthy s'
       \<and> mainLoop cfg ud ws (e # es) (globals p) = (Halted st, s')
       \<and> orch (run cfg p (Cycle e # evs)) = Halted st
       \<and> globals (run cfg p (Cycle e # evs)) = s'"
proof -
  from handle_Cycle_Halt [OF assms]
  have g: "globals (handle cfg p (Cycle e)) = s'" and o: "orch (handle cfg p (Cycle e)) = Halted st"
    by simp_all
  from run_Halted [OF o, of cfg evs] cycle_Halt [OF assms(2)] assms(2) show ?thesis
    by (simp add: run_Cons g del: handle.simps)
qed

text \<open>
  C10: when a pass ends in a return from the loop, status is true (as set at the start
  of the pass) and healthy is false, both stay so, and every later request for /status
  is answered 200 "true" and every later request for /health 503 "false".
\<close>

theorem halted_status_true:
  assumes "orch p = Looping ud ws" and "cycle cfg ud ws e (globals p) = (Halt st, s')"
  shows "status s' \<and> \<not> healthy s'
       \<and> status (globals (run cfg p (Cycle e # evs)))
       \<and> \<not> healthy (globals (run cfg p (Cycle e # evs)))
       \<and> served (run cfg p (Cycle e # evs)) = served p @
           map (\<lambda>ev. if ev = GetHealth then (''/health'', 503, ''false'')
                     else (''/status'', 200, ''true''))
             (filter (\<lambda>ev. ev = GetHealth \<or> ev = GetStatus) evs)"
proof -
  from handle_Cycle_Halt [OF assms]
  have g: "globals (handle cfg p (Cycle e)) = s'" and o: "orch (handle cfg p (Cycle e)) = Halted st"
    and sv: "served (handle cfg p (Cycle e)) = served p"
    by simp_all
  from cycle_Halt [OF assms(2)] have f: "status s'" "\<not> healthy s'" by simp_all
  then have r: "response (healthHandler s' newResponseWriter) = (503, ''false'')"
      "response (statusHandler s' newResponseWriter) = (200, ''true'')"
    by (simp_all add: response_def healthHandler_def statusHandler_def Write_def WriteHeader_def
      newResponseWriter_def fmt_t_def)
  from run_Halted [OF o, of cfg evs] f show ?thesis
    by (simp add: run_Cons g sv r del: handle.simps)
qed

theorem halted_status_true_witness:
  "orch (runMonitor sample_config) = Looping (300 * Second) True
   \<and> fst (cycle sample_config (300 * Second) True (sample_responses\<lparr>commitOk := False\<rparr>)
          (globals (runMonitor sample_config))) = Halt TagLayer
   \<and> served (run sample_config (runMonitor sample_config)
        [Cycle (sample_responses\<lparr>commitOk := False\<rparr>), GetStatus, Cycle sample_responses,
         GetHealth, GetStatus])
       = [(''/status'', 200, ''true''), (''/health'', 503, ''false''), (''/status'', 200, ''true'')]"
proof -
  let ?e = "sample_responses\<lparr>commitOk := False\<rparr>"
  let ?p = "runMonitor sample_config"
  have o: "orch ?p = Looping (300 * Second) True"
    by (simp add: runMonitor_def mainLoop_start_def sample_config_def)
  have c: "cycle sample_config (300 * Second) True ?e (globals ?p)
             = (Halt TagLayer, snd (cycle sample_config (300 * Second) True ?e (globals ?p)))"
    by (simp add: probe_defs)
  have sv: "served ?p = []" by (simp add: runMonitor_def)
  from halted_status_true [OF o c, of "[GetStatus, Cycle sample_responses, GetHealth, GetStatus]"]
  have "served (run sample_config ?p [Cycle ?e, GetStatus, Cycle sample_responses, GetHealth, GetStatus])
       = [(''/status'', 200, ''true''), (''/health'', 503, ''false''), (''/status'', 200, ''true'')]"
    by (simp add: sv)
  with o c show ?thesis by (metis fst_conv)
qed

text \<open>No pass and no request ever sets healthy from false to true.\<close>

lemma pushStage_healthy: "healthy (snd (pushStage cfg ud ws e s)) = healthy s"
  by (simp add: pushStage_def pushTestImage_def reportFailure_eq reportSuccess_eq
        reportPushTime_def putCloudWatchMetric_def emit_def Let_def)

lemma tagStage_healthy: "healthy (snd (tagStage cfg ud ws e s)) \<Longrightarrow> healthy s"
proof -
  assume a: "healthy (snd (tagStage cfg ud ws e s))"
  obtain r s1 where r: "createTagLayer cfg e s = (r, s1)" by force
  then have "carried s s1" using createTagLayer_carried [of s cfg e] by simp
  with a r show ?thesis
    by (auto simp: tagStage_def carried_def pushStage_healthy split: result.splits if_splits)
qed

lemma deleteStage_healthy: "healthy (snd (deleteStage cfg ud ws e s)) \<Longrightarrow> healthy s"
proof -
  assume a: "healthy (snd (deleteStage cfg ud ws e s))"
  obtain r s1 where r: "deleteTopLayer cfg e s = (r, s1)" by force
  then have "carried s s1" using deleteTopLayer_carried [of s cfg e] by simp
  with a r show ?thesis
    by (auto simp: deleteStage_def carried_def split: result.splits if_splits dest: tagStage_healthy)
qed

lemma baseStage_healthy: "healthy (snd (baseStage cfg ud ws e s)) \<Longrightarrow> healthy s"
  by (auto simp: baseStage_def pullBaseImage_def emit_def Let_def split: if_splits
        dest: deleteStage_healthy)

lemma cycle_healthy: "healthy (snd (cycle cfg ud ws e s)) \<Longrightarrow> healthy s"
proof (cases "clientOk e")
  case False
  assume "healthy (snd (cycle cfg ud ws e s))"
  with cycle_not_connected [OF False, of cfg ud ws s] show ?thesis
    by (simp add: sleepUnlessFirst_def emit_def split: if_splits)
next
  case True
  assume a: "healthy (snd (cycle cfg ud ws e s))"
  show ?thesis
  proof (cases "pullTestOk e")
    case False
    from cycle_pull_failed [OF True False, of cfg ud ws s] a show ?thesis
      by (simp add: reportFailure_eq putCloudWatchMetric_def emit_def sleepUnlessFirst_def
            split: if_splits)
  next
    case p: True
    from cycle_pulled [OF True p, of cfg ud ws s] a
    have "healthy (reportPullTime cfg ws (pullTime e)
       (emit (Pull (imagePath (repository cfg)) (pullOptions cfg))
          ((sleepUnlessFirst s)\<lparr>firstLoop := False, status := True,
             podmanContext := Some Connection\<rparr>)))"
      by (auto dest: baseStage_healthy)
    then show ?thesis
      by (simp add: reportPullTime_def putCloudWatchMetric_def emit_def sleepUnlessFirst_def
            split: if_splits)
  qed
qed

lemma handle_healthy: "healthy (globals (handle cfg p ev)) \<Longrightarrow> healthy (globals p)"
proof (cases ev)
  case (Cycle e)
  assume a: "healthy (globals (handle cfg p ev))"
  show ?thesis
  proof (cases "orch p")
    case (Looping ud ws)
    obtain c g where cg: "cycle cfg ud ws e (globals p) = (c, g)" by force
    with a Cycle Looping have "healthy g" by simp
    with cg show ?thesis using cycle_healthy [of cfg ud ws e "globals p"] by simp
  qed (use a Cycle in simp_all)
qed (simp_all split: if_splits)

lemma healthy_never_restored:
  "\<not> healthy (globals p) \<Longrightarrow> \<not> healthy (globals (run cfg p evs))"
proof (induction evs arbitrary: p)
  case Nil
  then show ?case by (simp add: run_def)
next
  case (Cons ev evs)
  then show ?case by (auto simp: run_Cons simp del: handle.simps dest: handle_healthy)
qed

text \<open>
  From the causes. After a successful connection and test pull, the pass ends in a return
  from the loop when the base pull fails, when the history call fails, or when the commit
  or the kill call of the tag step fails (the earlier steps having succeeded, with no
  history entry tagged latest and \<open>healthy\<close> true).
\<close>

lemma baseStage_structural:
  assumes "healthy s"
      and "(baseImage cfg \<noteq> '''' \<and> \<not> pullBaseOk e \<and> st = PullBase)
         \<or> ((baseImage cfg = '''' \<or> pullBaseOk e) \<and> imageHistory e = None \<and> st = DeleteLayer)
         \<or> ((baseImage cfg = '''' \<or> pullBaseOk e) \<and> imageHistory e = Some h
            \<and> (\<forall>x \<in> set h. \<not> stringInSlice ''latest'' (Tags x)) \<and> created e = Some cid
            \<and> (\<not> commitOk e \<or> startOk e \<and> \<not> killOk e) \<and> st = TagLayer)"
  shows "fst (baseStage cfg ud ws e s) = Halt st"
proof -
  have d: "fst (deleteStage cfg ud ws e s1) = Halt st"
    if "healthy s1" and "imageHistory e = None \<and> st = DeleteLayer
         \<or> (imageHistory e = Some h
            \<and> (\<forall>x \<in> set h. \<not> stringInSlice ''latest'' (Tags x)) \<and> created e = Some cid
            \<and> (\<not> commitOk e \<or> startOk e \<and> \<not> killOk e) \<and> st = TagLayer)" for s1
    using that
    by (auto simp: deleteStage_def deleteTopLayer_def deleteTopLayer_loop_untagged tagStage_def
          createTagLayer_def emit_def Let_def)
  show ?thesis
  proof (cases "baseImage cfg = ''''")
    case True
    with assms have "fst (deleteStage cfg ud ws e (s\<lparr>base := baseLayer cfg\<rparr>)) = Halt st"
      by (intro d) auto
    with True show ?thesis by (simp add: baseStage_def)
  next
    case False
    show ?thesis
    proof (cases "pullBaseOk e")
      case b: False
      with False assms(2) have "st = PullBase" by auto
      with False b show ?thesis by (simp add: baseStage_def pullBaseImage_def Let_def)
    next
      case b: True
      let ?s1 = "(emit (Pull (fullImageRef (registryHost cfg) (repository cfg) (baseImage cfg))
                         (pullOptions cfg)) s)\<lparr>base := baseImage cfg\<rparr>"
      from assms b have "fst (deleteStage cfg ud ws e ?s1) = Halt st"
        by (intro d) (auto simp: emit_def)
      with False b show ?thesis by (simp add: baseStage_def pullBaseImage_def Let_def)
    qed
  qed
qed

lemma cycle_structural:
  assumes "clientOk e" "pullTestOk e" "healthy s"
      and "(baseImage cfg \<noteq> '''' \<and> \<not> pullBaseOk e \<and> st = PullBase)
         \<or> ((baseImage cfg = '''' \<or> pullBaseOk e) \<and> imageHistory e = None \<and> st = DeleteLayer)
         \<or> ((baseImage cfg = '''' \<or> pullBaseOk e) \<and> imageHistory e = Some h
            \<and> (\<forall>x \<in> set h. \<not> stringInSlice ''latest'' (Tags x)) \<and> created e = Some cid
            \<and> (\<not> commitOk e \<or> startOk e \<and> \<not> killOk e) \<and> st = TagLayer)"
  shows "fst (cycle cfg ud ws e s) = Halt st"
proof -
  let ?s3 = "reportPullTime cfg ws (pullTime e)
     (emit (Pull (imagePath (repository cfg)) (pullOptions cfg))
        ((sleepUnlessFirst s)\<lparr>firstLoop := False, status := True,
           podmanContext := Some Connection\<rparr>))"
  have "healthy ?s3"
    using assms(3)
    by (simp add: reportPullTime_def putCloudWatchMetric_def emit_def sleepUnlessFirst_def)
  from baseStage_structural [OF this assms(4), of ud ws] show ?thesis
    by (simp add: cycle_pulled [OF assms(1,2)])
qed

text \<open>While the goroutine is in the loop, healthy is true.\<close>

lemma cycle_continues_healthy:
  assumes "cycle cfg ud ws e s = (c, s')" "continues c"
  shows "healthy s' = healthy s"
proof -
  from assms have k: "clientOk e" by (rule cycle_continues_connected)
  show ?thesis
  proof (cases "pullTestOk e")
    case False
    from cycle_pull_failed [OF k False, of cfg ud ws s] assms(1) show ?thesis
      by (auto simp: reportFailure_eq putCloudWatchMetric_def emit_def sleepUnlessFirst_def)
  next
    case True
    from cycle_continues [OF assms True] obtain s0 where
      p: "pushStage cfg ud ws e s0 = (c, s')" and h: "healthy s" "healthy s0" by blast
    from pushStage_healthy [of cfg ud ws e s0] p h show ?thesis by simp
  qed
qed

lemma handle_looping_healthy:
  assumes "looping (orch p) \<longrightarrow> healthy (globals p)"
  shows "looping (orch (handle cfg p ev)) \<longrightarrow> healthy (globals (handle cfg p ev))"
proof (cases ev)
  case (Cycle e)
  show ?thesis
  proof (cases "orch p")
    case (Looping ud ws)
    obtain c g where cg: "cycle cfg ud ws e (globals p) = (c, g)" by force
    show ?thesis
    proof (cases "continues c")
      case True
      from cycle_continues_healthy [OF cg True] assms Looping have "healthy g" by simp
      with Cycle Looping cg show ?thesis by simp
    next
      case False
      then have "\<not> looping (next_orch (Looping ud ws) c)" by (cases c) simp_all
      with Cycle Looping cg show ?thesis by simp
    qed
  qed (use assms Cycle in simp_all)
qed (use assms in simp_all)

lemma run_looping_healthy:
  assumes "looping (orch p) \<longrightarrow> healthy (globals p)"
  shows "looping (orch (run cfg p evs)) \<longrightarrow> healthy (globals (run cfg p evs))"
  using assms
proof (induction evs arbitrary: p)
  case Nil
  then show ?case by (simp add: run_def)
next
  case (Cons ev evs)
  from Cons.IH [OF handle_looping_healthy [OF Cons.prems, of cfg ev]] show ?case
    by (simp add: run_Cons del: handle.simps)
qed

lemma reachable_healthy:
  assumes "orch (run cfg (runMonitor cfg) evs) = Looping ud ws"
  shows "healthy (globals (run cfg (runMonitor cfg) evs))"
proof -
  have "looping (orch (runMonitor cfg)) \<longrightarrow> healthy (globals (runMonitor cfg))"
    by (simp add: runMonitor_def runMonitor_init_def)
  from run_looping_healthy [OF this, of cfg evs] assms show ?thesis by simp
qed

text \<open>
  C2: take any run of the process started by runMonitor that is still in the loop, and a
  next pass in which the connection and the test pull succeed and then the base pull
  fails, or the history call fails, or (no history entry being tagged latest and the
  container created) the commit or the kill call fails. That pass ends in a return from
  the loop with healthy false; the loop itself, given responses for any number of
  further passes, has returned at this pass; and whatever happens afterwards (further
  responses of the engine, requests) the loop stays halted, every variable, the record
  of calls included, keeps the value it had at the return, and healthy is never true
  again.
\<close>

theorem structural_failure_halts:
  assumes "orch (run cfg (runMonitor cfg) evs0) = Looping ud ws"
      and "clientOk e" and "pullTestOk e"
      and "(baseImage cfg \<noteq> '''' \<and> \<not> pullBaseOk e \<and> st = PullBase)
         \<or> ((baseImage cfg = '''' \<or> pullBaseOk e) \<and> imageHistory e = None \<and> st = DeleteLayer)
         \<or> ((baseImage cfg = '''' \<or> pullBaseOk e) \<and> imageHistory e = Some h
            \<and> (\<forall>x \<in> set h. \<not> stringInSlice ''latest'' (Tags x)) \<and> created e = Some cid
            \<and> (\<not> commitOk e \<or> startOk e \<and> \<not> killOk e) \<and> st = TagLayer)"
  shows "fst (cycle cfg ud ws e (globals (run cfg (runMonitor cfg) evs0))) = Halt st
       \<and> \<not> healthy (snd (cycle cfg ud ws e (globals (run cfg (runMonitor cfg) evs0))))
       \<and> mainLoop cfg ud ws (e # es) (globals (run cfg (runMonitor cfg) evs0))
           = (Halted st, snd (cycle cfg ud ws e (globals (run cfg (runMonitor cfg) evs0))))
       \<and> orch (run cfg (runMonitor cfg) (evs0 @ Cycle e # evs)) = Halted st
       \<and> globals (run cfg (runMonitor cfg) (evs0 @ Cycle e # evs))
           = snd (cycle cfg ud ws e (globals (run cfg (runMonitor cfg) evs0)))
       \<and> \<not> healthy (globals (run cfg (runMonitor cfg) (evs0 @ Cycle e # evs)))"
proof -
  let ?p = "run cfg (runMonitor cfg) evs0"
  let ?X = "cycle cfg ud ws e (globals ?p)"
  from assms(1) have h: "healthy (globals ?p)" by (rule reachable_healthy)
  from cycle_structural [OF assms(2,3) h assms(4), of ud ws]
  have f: "fst ?X = Halt st" .
  then have c: "?X = (Halt st, snd ?X)" by (metis prod.collapse)
  from halt_is_final [OF assms(1) c, of es evs] f show ?thesis
    by (simp add: run_append del: handle.simps)
qed

theorem structural_failure_halts_witness:
  "orch (run base_image_config (runMonitor base_image_config) []) = Looping (300 * Second) True
   \<and> baseImage base_image_config \<noteq> ''''
   \<and> \<not> pullBaseOk (sample_responses\<lparr>pullBaseOk := False\<rparr>)
   \<and> orch (run base_image_config (runMonitor base_image_config)
        [Cycle (sample_responses\<lparr>pullBaseOk := False\<rparr>), GetHealth, Cycle sample_responses])
       = Halted PullBase
   \<and> \<not> healthy (globals (run base_image_config (runMonitor base_image_config)
        [Cycle (sample_responses\<lparr>pullBaseOk := False\<rparr>), GetHealth, Cycle sample_responses]))
   \<and> orch (run sample_config (runMonitor sample_config) [Cycle sample_responses])
       = Looping (300 * Second) True
   \<and> imageHistory (sample_responses\<lparr>imageHistory := None\<rparr>) = None
   \<and> orch (run sample_config (runMonitor sample_config)
        [Cycle sample_responses, Cycle (sample_responses\<lparr>imageHistory := None\<rparr>),
         GetHealth, Cycle sample_responses])
       = Halted DeleteLayer
   \<and> \<not> healthy (globals (run sample_config (runMonitor sample_config)
        [Cycle sample_responses, Cycle (sample_responses\<lparr>imageHistory := None\<rparr>),
         GetHealth, Cycle sample_responses]))
   \<and> orch (run sample_config (runMonitor sample_config) []) = Looping (300 * Second) True
   \<and> imageHistory (sample_responses\<lparr>killOk := False\<rparr>)
       = Some [\<lparr>ID = ''0a1b2c'', Tags = [''v1'']\<rparr>]
   \<and> created (sample_responses\<lparr>killOk := False\<rparr>) = Some ''c0ffee''
   \<and> startOk (sample_responses\<lparr>killOk := False\<rparr>)
   \<and> \<not> killOk (sample_responses\<lparr>killOk := False\<rparr>)
   \<and> orch (run sample_config (runMonitor sample_config)
        [Cycle (sample_responses\<lparr>killOk := False\<rparr>), GetHealth, Cycle sample_responses])
       = Halted TagLayer
   \<and> \<not> healthy (globals (run sample_config (runMonitor sample_config)
        [Cycle (sample_responses\<lparr>killOk := False\<rparr>), GetHealth, Cycle sample_responses]))"
proof -
  let ?h = "[\<lparr>ID = ''0a1b2c'', Tags = [''v1'']\<rparr>]"
  let ?later = "[GetHealth, Cycle sample_responses]"
  let ?e1 = "sample_responses\<lparr>pullBaseOk := False\<rparr>"
  let ?e2 = "sample_responses\<lparr>imageHistory := None\<rparr>"
  let ?e3 = "sample_responses\<lparr>killOk := False\<rparr>"
  have o1: "orch (run base_image_config (runMonitor base_image_config) [])
              = Looping (300 * Second) True"
    by (simp add: run_def runMonitor_def mainLoop_start_def base_image_config_def
          sample_config_def)
  have o2: "orch (run sample_config (runMonitor sample_config) [Cycle sample_responses])
              = Looping (300 * Second) True"
    by (simp add: probe_defs)
  have o3: "orch (run sample_config (runMonitor sample_config) []) = Looping (300 * Second) True"
    by (simp add: run_def runMonitor_def mainLoop_start_def sample_config_def)
  have k: "clientOk ?e1" "pullTestOk ?e1" "clientOk ?e2" "pullTestOk ?e2"
      "clientOk ?e3" "pullTestOk ?e3"
    by (simp_all add: sample_responses_def)
  have f: "baseImage base_image_config \<noteq> ''''" "\<not> pullBaseOk ?e1" "imageHistory ?e2 = None"
      "imageHistory ?e3 = Some ?h" "created ?e3 = Some ''c0ffee''" "startOk ?e3" "\<not> killOk ?e3"
      "baseImage sample_config = ''''"
    by (simp_all add: sample_responses_def sample_config_def base_image_config_def)
  have c1: "(baseImage base_image_config \<noteq> '''' \<and> \<not> pullBaseOk ?e1 \<and> PullBase = PullBase)
         \<or> ((baseImage base_image_config = '''' \<or> pullBaseOk ?e1) \<and> imageHistory ?e1 = None
            \<and> PullBase = DeleteLayer)
         \<or> ((baseImage base_image_config = '''' \<or> pullBaseOk ?e1) \<and> imageHistory ?e1 = Some ?h
            \<and> (\<forall>x \<in> set ?h. \<not> stringInSlice ''latest'' (Tags x)) \<and> created ?e1 = Some ''c0ffee''
            \<and> (\<not> commitOk ?e1 \<or> startOk ?e1 \<and> \<not> killOk ?e1) \<and> PullBase = TagLayer)"
    using f by simp
  have c2: "(baseImage sample_config \<noteq> '''' \<and> \<not> pullBaseOk ?e2 \<and> DeleteLayer = PullBase)
         \<or> ((baseImage sample_config = '''' \<or> pullBaseOk ?e2) \<and> imageHistory ?e2 = None
            \<and> DeleteLayer = DeleteLayer)
         \<or> ((baseImage sample_config = '''' \<or> pullBaseOk ?e2) \<and> imageHistory ?e2 = Some ?h
            \<and> (\<forall>x \<in> set ?h. \<not> stringInSlice ''latest'' (Tags x)) \<and> created ?e2 = Some ''c0ffee''
            \<and> (\<not> commitOk ?e2 \<or> startOk ?e2 \<and> \<not> killOk ?e2) \<and> DeleteLayer = TagLayer)"
    using f by simp
  have c3: "(baseImage sample_config \<noteq> '''' \<and> \<not> pullBaseOk ?e3 \<and> TagLayer = PullBase)
         \<or> ((baseImage sample_config = '''' \<or> pullBaseOk ?e3) \<and> imageHistory ?e3 = None
            \<and> TagLayer = DeleteLayer)
         \<or> ((baseImage sample_config = '''' \<or> pullBaseOk ?e3) \<and> imageHistory ?e3 = Some ?h
            \<and> (\<forall>x \<in> set ?h. \<not> stringInSlice ''latest'' (Tags x)) \<and> created ?e3 = Some ''c0ffee''
            \<and> (\<not> commitOk ?e3 \<or> startOk ?e3 \<and> \<not> killOk ?e3) \<and> TagLayer = TagLayer)"
    using f by simp
  from structural_failure_halts [OF o1 k(1,2) c1, of _ ?later]
       structural_failure_halts [OF o2 k(3,4) c2, of _ ?later]
       structural_failure_halts [OF o3 k(5,6) c3, of _ ?later]
       o1 o2 o3 f
  show ?thesis by simp
qed

subsection \<open>Success\<close>

lemma handle_Looping:
  "orch (handle cfg p ev) = Looping ud ws \<Longrightarrow> orch p = Looping ud ws"
proof (cases ev)
  case (Cycle e)
  assume a: "orch (handle cfg p ev) = Looping ud ws"
  show ?thesis
  proof (cases "orch p")
    case (Looping ud' ws')
    obtain c g where cg: "cycle cfg ud' ws' e (globals p) = (c, g)" by force
    with a Cycle Looping show ?thesis by (cases c) simp_all
  qed (use a Cycle in simp_all)
qed (simp_all split: if_splits)

lemma run_Looping:
  "orch (run cfg p evs) = Looping ud ws \<Longrightarrow> orch p = Looping ud ws"
proof (induction evs arbitrary: p)
  case Nil
  then show ?case by (simp add: run_def)
next
  case (Cons ev evs)
  then show ?case by (auto simp: run_Cons simp del: handle.simps dest: handle_Looping)
qed

lemma runMonitor_Looping:
  "orch (runMonitor cfg) = Looping ud ws \<Longrightarrow> testInterval cfg = Some ud"
  by (simp add: runMonitor_def mainLoop_start_def split: option.splits)

text \<open>
  C4: in a process started by runMonitor, a pass that reaches the end of the loop body
  leaves the interval at the parsed value of the run-test-every flag, status true and
  healthy true; the success counter has gone up by one and the push time has been
  observed (and, when CloudWatch is configured, the push-time datum and the success datum
  are the last two calls); the next pass begins by sleeping for that interval.
\<close>

theorem success_cycle:
  assumes "orch (run cfg (runMonitor cfg) evs) = Looping ud ws"
      and "cycle cfg ud ws e (globals (run cfg (runMonitor cfg) evs)) = (Succeeded, s')"
  shows "testInterval cfg = Some ud \<and> duration s' = ud \<and> status s' \<and> healthy s'
       \<and> promSuccessMetric s' = promSuccessMetric (globals (run cfg (runMonitor cfg) evs)) + 1
       \<and> promPushMetric s' = promPushMetric (globals (run cfg (runMonitor cfg) evs)) @ [pushTime e]
       \<and> (ws \<longrightarrow> (\<exists>t. trace s' = t @
             [PutMetricData (cloudwatchNamespace cfg) (cloudwatchPushTimeMetric cfg)
                ''Seconds'' (Seconds (pushTime e)),
              PutMetricData (cloudwatchNamespace cfg) (cloudwatchSuccessMetric cfg)
                ''Count'' (Count 1)]))
       \<and> sleepUnlessFirst s' = emit (Sleep ud) s'"
proof -
  let ?s = "globals (run cfg (runMonitor cfg) evs)"
  from assms(1) have i: "testInterval cfg = Some ud"
    by (blast dest: run_Looping runMonitor_Looping)
  have k: "clientOk e"
    using cycle_continues_connected [OF assms(2)] by simp
  have ok: "pullTestOk e"
  proof (rule ccontr)
    assume "\<not> pullTestOk e"
    from cycle_pull_failed [OF k this, of cfg ud ws ?s] assms(2) show False by simp
  qed
  have "continues Succeeded" by simp
  from cycle_continues [OF assms(2) this ok] obtain s0 where
    p: "pushStage cfg ud ws e s0 = (Succeeded, s')" and
    f: "healthy s0" "\<not> firstLoop s0"
       "promSuccessMetric s0 = promSuccessMetric ?s" "promPushMetric s0 = promPushMetric ?s"
    by blast
  from pushStage_Succeeded [OF p] f i show ?thesis
    by (simp add: sleepUnlessFirst_def)
qed

theorem success_cycle_witness:
  "orch (run sample_config (runMonitor sample_config) [Cycle (sample_responses\<lparr>pullTestOk := False\<rparr>)])
     = Looping (300 * Second) True
   \<and> fst (cycle sample_config (300 * Second) True sample_responses
        (globals (run sample_config (runMonitor sample_config)
           [Cycle (sample_responses\<lparr>pullTestOk := False\<rparr>)]))) = Succeeded
   \<and> testInterval sample_config = Some (300 * Second)
   \<and> duration (snd (cycle sample_config (300 * Second) True sample_responses
        (globals (run sample_config (runMonitor sample_config)
           [Cycle (sample_responses\<lparr>pullTestOk := False\<rparr>)])))) = 300 * Second
   \<and> status (snd (cycle sample_config (300 * Second) True sample_responses
        (globals (run sample_config (runMonitor sample_config)
           [Cycle (sample_responses\<lparr>pullTestOk := False\<rparr>)]))))
   \<and> healthy (snd (cycle sample_config (300 * Second) True sample_responses
        (globals (run sample_config (runMonitor sample_config)
           [Cycle (sample_responses\<lparr>pullTestOk := False\<rparr>)]))))"
proof -
  let ?p = "run sample_config (runMonitor sample_config) [Cycle (sample_responses\<lparr>pullTestOk := False\<rparr>)]"
  let ?X = "cycle sample_config (300 * Second) True sample_responses (globals ?p)"
  have o: "orch ?p = Looping (300 * Second) True" by (simp add: probe_defs)
  have x: "fst ?X = Succeeded" by (simp add: probe_defs)
  then have x1: "?X = (Succeeded, snd ?X)" by (metis prod.collapse)
  from success_cycle [OF o x1] o x show ?thesis by simp
qed

subsection \<open>The interval at the start\<close>

text \<open>
  C5, amended: at the start of the loop, before any pass, the interval variable is 120
  seconds, whatever the configured interval is.
\<close>

theorem initial_interval:
  "duration (globals (runMonitor cfg)) = 120 * Second"
  by (simp add: runMonitor_def runMonitor_init_def)

text \<open>
  C5 as stated fails: with a configured interval of five minutes the loop starts, no
  call has been made, and the interval variable is not five minutes.
\<close>

theorem initial_interval_counterexample:
  "testInterval sample_config = Some (300 * Second)
   \<and> orch (runMonitor sample_config) = Looping (300 * Second) True
   \<and> trace (globals (runMonitor sample_config)) = []
   \<and> duration (globals (runMonitor sample_config)) \<noteq> 300 * Second"
  by (simp add: probe_defs)

text \<open>
  The first pass does not sleep, and every pass after which the loop goes on has set the
  interval to 30 seconds or to the configured value.
\<close>

lemma first_pass_does_not_sleep:
  "sleepUnlessFirst (globals (runMonitor cfg)) = globals (runMonitor cfg)"
  by (simp add: sleepUnlessFirst_def runMonitor_def runMonitor_init_def)

lemma cycle_sets_interval:
  assumes "cycle cfg ud ws e s = (c, s')" "continues c"
  shows "\<not> firstLoop s' \<and> (duration s' = 30 * Second \<or> duration s' = ud)"
proof (cases "pullTestOk e")
  case False
  from assms have "clientOk e" by (rule cycle_continues_connected)
  from cycle_pull_failed [OF this False, of cfg ud ws s] assms(1) show ?thesis
    by (auto simp: reportFailure_eq putCloudWatchMetric_def emit_def)
next
  case True
  from cycle_continues [OF assms True] obtain s0 where
    p: "pushStage cfg ud ws e s0 = (c, s')" and f: "\<not> firstLoop s0" by blast
  from assms(2) p f show ?thesis
    by (cases c) (auto dest: pushStage_Failed pushStage_Succeeded)
qed

end
